theory Spec2Isabelle
  imports Main
begin

section \<open>The native-routine surface of COMPASS\<close>

text \<open>
  \<^verbatim>\<open>src/COMPASS_init.c\<close> consists of forward declarations of the package's native
  routines and of the table \<^verbatim>\<open>callMethods\<close> that registers them with R.  A forward
  declaration is modelled as a record of its return type, its name and its parameter
  list, each parameter with its declared type and its name, in declaration order.
\<close>

subsection \<open>Forward declarations\<close>

text \<open>Every type that occurs in the declarations is R's \<^verbatim>\<open>SEXP\<close>.\<close>

datatype ctype = SEXP

record prototype =
  ret :: ctype
  fname :: string
  params :: "(ctype \<times> string) list"

text \<open>The number of parameters of type \<^verbatim>\<open>SEXP\<close> a declaration has.\<close>

definition sexp_arity :: "prototype \<Rightarrow> int" where
  "sexp_arity p = int (length (filter (\<lambda>tn. fst tn = SEXP) (params p)))"

definition param_names :: "prototype \<Rightarrow> string list" where
  "param_names p = map snd (params p)"

definition melt_dataframe :: prototype where
  "melt_dataframe = \<lparr>ret = SEXP, fname = ''melt_dataframe'',
     params = [(SEXP, ''x''), (SEXP, ''id_ind_''), (SEXP, ''val_ind_''),
               (SEXP, ''variable_name''), (SEXP, ''value_name'')]\<rparr>"

definition melt_matrix :: prototype where
  "melt_matrix = \<lparr>ret = SEXP, fname = ''melt_matrix'', params = [(SEXP, ''x'')]\<rparr>"

definition transpose_list :: prototype where
  "transpose_list = \<lparr>ret = SEXP, fname = ''transpose_list'', params = [(SEXP, ''x'')]\<rparr>"

text \<open>
  The two exported wrappers are called \<^verbatim>\<open>_COMPASS_CellCounts_character\<close> and
  \<^verbatim>\<open>_COMPASS_CellCounts\<close> in C; an Isabelle name cannot start with an underscore, so
  the constants carry the prefix \<open>decl\<close> and the field \<open>fname\<close> holds the C name.
\<close>

definition decl_COMPASS_CellCounts_character :: prototype where
  "decl_COMPASS_CellCounts_character =
     \<lparr>ret = SEXP, fname = ''_COMPASS_CellCounts_character'',
      params = [(SEXP, ''dataSEXP''), (SEXP, ''combinationsSEXP'')]\<rparr>"

definition decl_COMPASS_CellCounts :: prototype where
  "decl_COMPASS_CellCounts =
     \<lparr>ret = SEXP, fname = ''_COMPASS_CellCounts'',
      params = [(SEXP, ''xSEXP''), (SEXP, ''combosSEXP'')]\<rparr>"

definition samplePuPs :: prototype where
  "samplePuPs = \<lparr>ret = SEXP, fname = ''samplePuPs'',
     params = [(SEXP, ''alphau''), (SEXP, ''alphas''), (SEXP, ''gammat''), (SEXP, ''T''),
               (SEXP, ''K''), (SEXP, ''nsi''), (SEXP, ''nui''), (SEXP, ''d''),
               (SEXP, ''M'')]\<rparr>"

definition samplePuPs_full :: prototype where
  "samplePuPs_full = \<lparr>ret = SEXP, fname = ''samplePuPs_full'',
     params = [(SEXP, ''alphau''), (SEXP, ''alphas''), (SEXP, ''gammat''), (SEXP, ''T''),
               (SEXP, ''K''), (SEXP, ''nsi''), (SEXP, ''nui''), (SEXP, ''d''),
               (SEXP, ''M'')]\<rparr>"

definition updatealphas_Exp :: prototype where
  "updatealphas_Exp = \<lparr>ret = SEXP, fname = ''updatealphas_Exp'',
     params = [(SEXP, ''alphast''), (SEXP, ''n_s''), (SEXP, ''K''), (SEXP, ''I''),
               (SEXP, ''lambda_s''), (SEXP, ''gammat''), (SEXP, ''var_1''),
               (SEXP, ''var_2''), (SEXP, ''p_var''), (SEXP, ''ttt'')]\<rparr>"

definition updatealphas_Exp_MH :: prototype where
  "updatealphas_Exp_MH = \<lparr>ret = SEXP, fname = ''updatealphas_Exp_MH'',
     params = [(SEXP, ''alphast''), (SEXP, ''n_s''), (SEXP, ''K''), (SEXP, ''I''),
               (SEXP, ''lambda_s''), (SEXP, ''gammat''), (SEXP, ''var_1''),
               (SEXP, ''var_2''), (SEXP, ''p_var'')]\<rparr>"

definition updatealphau_noPu_Exp :: prototype where
  "updatealphau_noPu_Exp = \<lparr>ret = SEXP, fname = ''updatealphau_noPu_Exp'',
     params = [(SEXP, ''alphaut''), (SEXP, ''n_s''), (SEXP, ''n_u''), (SEXP, ''I''),
               (SEXP, ''K''), (SEXP, ''lambda_u''), (SEXP, ''var_p''), (SEXP, ''ttt''),
               (SEXP, ''gammat'')]\<rparr>"

definition updatealphau_noPu_Exp_MH :: prototype where
  "updatealphau_noPu_Exp_MH = \<lparr>ret = SEXP, fname = ''updatealphau_noPu_Exp_MH'',
     params = [(SEXP, ''alphaut''), (SEXP, ''n_s''), (SEXP, ''n_u''), (SEXP, ''I''),
               (SEXP, ''K''), (SEXP, ''lambda_u''), (SEXP, ''var_p''),
               (SEXP, ''gammat'')]\<rparr>"

definition updategammak_noPu :: prototype where
  "updategammak_noPu = \<lparr>ret = SEXP, fname = ''updategammak_noPu'',
     params = [(SEXP, ''n_s''), (SEXP, ''n_u''), (SEXP, ''gammat''), (SEXP, ''I''),
               (SEXP, ''K''), (SEXP, ''SS''), (SEXP, ''alphau''), (SEXP, ''alphas''),
               (SEXP, ''alpha''), (SEXP, ''mk''), (SEXP, ''Istar''), (SEXP, ''mKstar''),
               (SEXP, ''pp''), (SEXP, ''pb1''), (SEXP, ''pb2''), (SEXP, ''indi'')]\<rparr>"

subsection \<open>The registration table\<close>

text \<open>
  An entry of R's \<^verbatim>\<open>R_CallMethodDef\<close> has the fields \<^verbatim>\<open>name\<close>, \<^verbatim>\<open>fun\<close> and
  \<^verbatim>\<open>numArgs\<close>.  The two pointers may be \<^verbatim>\<open>NULL\<close>, which is \<open>None\<close> here; a
  function pointer \<^verbatim>\<open>(DL_FUNC) & f\<close> is the declaration of \<open>f\<close> it refers to.  The
  field \<^verbatim>\<open>fun\<close> is spelled \<open>func\<close>, since \<^theory_text>\<open>fun\<close> is a keyword.
\<close>

record R_CallMethodDef =
  name :: "string option"
  func :: "prototype option"
  numArgs :: int

definition callMethods :: "R_CallMethodDef list" where
  "callMethods =
    [\<lparr>name = Some ''C_melt_dataframe'', func = Some melt_dataframe, numArgs = 5\<rparr>,
     \<lparr>name = Some ''C_melt_matrix'', func = Some melt_matrix, numArgs = 1\<rparr>,
     \<lparr>name = Some ''C_transpose_list'', func = Some transpose_list, numArgs = 1\<rparr>,
     \<lparr>name = Some ''C_COMPASS_CellCounts_character'',
      func = Some decl_COMPASS_CellCounts_character, numArgs = 2\<rparr>,
     \<lparr>name = Some ''C_COMPASS_CellCounts'', func = Some decl_COMPASS_CellCounts,
      numArgs = 2\<rparr>,
     \<lparr>name = Some ''C_samplePuPs'', func = Some samplePuPs, numArgs = 9\<rparr>,
     \<lparr>name = Some ''C_samplePuPs_full'', func = Some samplePuPs_full, numArgs = 9\<rparr>,
     \<lparr>name = Some ''C_updatealphas_Exp'', func = Some updatealphas_Exp, numArgs = 10\<rparr>,
     \<lparr>name = Some ''C_updatealphas_Exp_MH'', func = Some updatealphas_Exp_MH,
      numArgs = 9\<rparr>,
     \<lparr>name = Some ''C_updatealphau_noPu_Exp'', func = Some updatealphau_noPu_Exp,
      numArgs = 9\<rparr>,
     \<lparr>name = Some ''C_updatealphau_noPu_Exp_MH'', func = Some updatealphau_noPu_Exp_MH,
      numArgs = 8\<rparr>,
     \<lparr>name = Some ''C_updategammak_noPu'', func = Some updategammak_noPu, numArgs = 16\<rparr>,
     \<lparr>name = None, func = None, numArgs = 0\<rparr>]"

text \<open>
  R reads the table up to the first entry whose \<^verbatim>\<open>name\<close> is \<^verbatim>\<open>NULL\<close>; these are
  the routines it registers.
\<close>

fun registered :: "R_CallMethodDef list \<Rightarrow> R_CallMethodDef list" where
  "registered [] = []"
| "registered (e # es) = (case name e of None \<Rightarrow> [] | Some _ \<Rightarrow> e # registered es)"

text \<open>
  What an entry says, next to what the declaration it points to says: the name of the
  declared function, the argument count of the entry, and the number of \<^verbatim>\<open>SEXP\<close>
  parameters of the declaration.  An entry with no function has no declaration.
\<close>

definition entry_summary :: "R_CallMethodDef \<Rightarrow> (string \<times> int \<times> int) option" where
  "entry_summary e = map_option (\<lambda>p. (fname p, numArgs e, sexp_arity p)) (func e)"

text \<open>An entry agrees with the declaration it points to on the number of arguments.\<close>

definition arity_agrees :: "R_CallMethodDef \<Rightarrow> bool" where
  "arity_agrees e = (case func e of None \<Rightarrow> False | Some p \<Rightarrow> numArgs e = sexp_arity p)"


subsection \<open>What the updaters of \<open>alphas\<close> return\<close>

text \<open>
  A native routine hands one R object back to its caller: \<^verbatim>\<open>NULL\<close>, a numeric
  vector, or a list of objects.  A scalar is a numeric vector with one element.
\<close>

datatype 'a robject = R_NilValue | R_numeric "'a list" | R_list "'a robject list"




section \<open>The Combinatorial Counter\<close>

text \<open>
  \<^verbatim>\<open>src/RcppExports.cpp\<close> declares \<^verbatim>\<open>IntegerMatrix CellCounts(List x, List combos)\<close>
  and wraps it for R; the body of \<^verbatim>\<open>CellCounts\<close> is not among the sources.

  The data of the specification: a cell is a row of marker-positivity values, one per
  marker column; the cell table \<open>x\<close> names the marker columns and holds, subject by
  subject in input order, the subject's cells; a category definition assigns
  \<open>True\<close> or \<open>False\<close> to markers, by name.
\<close>

type_synonym cell = "bool list"

record cell_table =
  markers :: "string list"
  subjects :: "cell list list"

type_synonym category = "(string \<times> bool) list"

datatype counter_error = AbsentMarker | EmptyTable

text \<open>What a category definition says about each marker column of the data, in column order.\<close>

definition definition_across :: "string list \<Rightarrow> category \<Rightarrow> bool option list" where
  "definition_across ms c = map (map_of c) ms"

text \<open>A cell matches a category when its row is the category's definition, column by column.\<close>

definition matches :: "string list \<Rightarrow> cell \<Rightarrow> category \<Rightarrow> bool" where
  "matches ms cl c = (map Some cl = definition_across ms c)"

fun count_matching :: "string list \<Rightarrow> category \<Rightarrow> cell list \<Rightarrow> int" where
  "count_matching ms c [] = 0"
| "count_matching ms c (cl # cls) =
     (if matches ms cl c then 1 else 0) + count_matching ms c cls"

definition references_absent :: "string list \<Rightarrow> category \<Rightarrow> bool" where
  "references_absent ms c = list_ex (\<lambda>mb. fst mb \<notin> set ms) c"

text \<open>
  Modelled from the spec: the body of \<^verbatim>\<open>CellCounts\<close> is missing from the sources.
  Section 4.1 of the specification: the entry \<open>(subject, category)\<close> of the result counts
  the cells of that subject that match that category; rows follow the input order of the
  subjects, columns the order of the supplied category list; the call is an error when a
  category definition references a marker absent from the data, or when the cell table
  is empty (it holds no cell).  The specification does not say which error wins when
  both apply; they are tested in the order it lists them.
\<close>

definition CellCounts :: "cell_table \<Rightarrow> category list \<Rightarrow> counter_error + int list list" where
  "CellCounts x combos =
     (if list_ex (references_absent (markers x)) combos then Inl AbsentMarker
      else if concat (subjects x) = [] then Inl EmptyTable
      else Inr (map (\<lambda>cls. map (\<lambda>c. count_matching (markers x) c cls) combos) (subjects x)))"

text \<open>
  The specification's matching rule, written out: the cell has one value per marker
  column, and the category assigns to every marker column exactly the cell's value there.
\<close>

definition identical_across :: "string list \<Rightarrow> cell \<Rightarrow> category \<Rightarrow> bool" where
  "identical_across ms cl c =
     (length cl = length ms \<and> (\<forall>j<length ms. map_of c (ms ! j) = Some (cl ! j)))"

definition row_sums :: "int list list \<Rightarrow> int list" where
  "row_sums M = map sum_list M"

text \<open>The total number of cells of each subject.\<close>

definition cell_totals :: "cell_table \<Rightarrow> int list" where
  "cell_totals x = map (\<lambda>cls. int (length cls)) (subjects x)"

text \<open>The cells of a subject that match at least one category of the list.\<close>

definition matched_cells :: "string list \<Rightarrow> category list \<Rightarrow> cell list \<Rightarrow> cell list" where
  "matched_cells ms combos cls = filter (\<lambda>cl. list_ex (matches ms cl) combos) cls"

section \<open>The acceptance counters of the category-activation sampler\<close>

text \<open>
  \<^verbatim>\<open>updategammak_noPu\<close> is declared in \<^verbatim>\<open>src/COMPASS_init.c\<close> with the parameters
  \<^verbatim>\<open>pb1\<close> and \<^verbatim>\<open>pb2\<close>; its body is not among the sources.  The counters are
  integers that, by their type, could go down as well as up.
\<close>

record counters =
  pb1 :: int
  pb2 :: int

text \<open>
  Modelled from the spec: the body of \<^verbatim>\<open>updategammak_noPu\<close> is missing from the
  sources.  Section 4.4 of the specification: each candidate add/remove is scored by an
  acceptance ratio, and \<open>pb1\<close>/\<open>pb2\<close> are incremented on each proposal/acceptance
  respectively.  One proposal, with its outcome (accepted or not), does this to the
  counters.
\<close>

definition propose :: "bool \<Rightarrow> counters \<Rightarrow> counters" where
  "propose accepted c =
     c\<lparr>pb1 := pb1 c + 1, pb2 := (if accepted then pb2 c + 1 else pb2 c)\<rparr>"

text \<open>
  Modelled from the spec: what one call of \<^verbatim>\<open>updategammak_noPu\<close> does to the
  counters.  The outcomes of the proposals the call makes, in the order it makes them,
  are its random draws; they are an input here.
\<close>

fun updategammak_noPu_counters :: "bool list \<Rightarrow> counters \<Rightarrow> counters" where
  "updategammak_noPu_counters [] c = c"
| "updategammak_noPu_counters (accepted # rest) c =
     updategammak_noPu_counters rest (propose accepted c)"

text \<open>
  Modelled from the spec: the driver is missing from the sources.  Section 3 of the
  specification: the counters are reset only at chain start; section 2: each iteration
  invokes the category-activation sampler once.  \<open>chain_counters its\<close> lists the
  counters before the first iteration and after each iteration of a chain whose
  iterations have the proposal outcomes \<open>its\<close>.
\<close>

definition chain_start :: counters where
  "chain_start = \<lparr>pb1 = 0, pb2 = 0\<rparr>"

fun run_chain :: "counters \<Rightarrow> bool list list \<Rightarrow> counters list" where
  "run_chain c [] = [c]"
| "run_chain c (outcomes # its) = c # run_chain (updategammak_noPu_counters outcomes c) its"

definition chain_counters :: "bool list list \<Rightarrow> counters list" where
  "chain_counters its = run_chain chain_start its"

text \<open>Neither counter of \<open>a\<close> is above its value in \<open>b\<close>.\<close>

definition counters_le :: "counters \<Rightarrow> counters \<Rightarrow> bool" where
  "counters_le a b = (pb1 a \<le> pb1 b \<and> pb2 a \<le> pb2 b)"

definition counters_ok :: "counters \<Rightarrow> bool" where
  "counters_ok c = (0 \<le> pb2 c \<and> pb2 c \<le> pb1 c)"

section \<open>The exported wrappers of the Counter\<close>

text \<open>
  \<^verbatim>\<open>src/RcppExports.cpp\<close> defines \<^verbatim>\<open>_COMPASS_CellCounts\<close> and
  \<^verbatim>\<open>_COMPASS_CellCounts_character\<close>.  A C++ computation either returns a value or
  throws; it is modelled as a function from the events so far to its outcome (\<open>Inl\<close>
  an exception, \<open>Inr\<close> a value) and the events after it.  The events are the two
  calls an RNG scope makes and the call of a counter.
\<close>

datatype event = GetRNGstate | PutRNGstate | Call string

type_synonym ('e, 'a) cpp = "event list \<Rightarrow> ('e + 'a) \<times> event list"

definition return_cpp :: "'a \<Rightarrow> ('e, 'a) cpp" where
  "return_cpp a tr = (Inr a, tr)"

text \<open>Sequencing: when the first computation throws, the rest is skipped.\<close>

definition bind_cpp :: "('e, 'a) cpp \<Rightarrow> ('a \<Rightarrow> ('e, 'b) cpp) \<Rightarrow> ('e, 'b) cpp" where
  "bind_cpp m f tr = (case m tr of (Inl e, tr') \<Rightarrow> (Inl e, tr') | (Inr a, tr') \<Rightarrow> f a tr')"

text \<open>An expression that makes no call the model records: a conversion of an argument.\<close>

definition eval_cpp :: "'e + 'a \<Rightarrow> ('e, 'a) cpp" where
  "eval_cpp r tr = (r, tr)"

text \<open>The call of the function \<open>f\<close>, with the outcome \<open>r\<close>.\<close>

definition call_cpp :: "string \<Rightarrow> 'e + 'a \<Rightarrow> ('e, 'a) cpp" where
  "call_cpp f r tr = (r, tr @ [Call f])"

text \<open>
  Modelled from the spec: \<^verbatim>\<open>Rcpp::RNGScope\<close> belongs to Rcpp and is missing from the
  sources.  The object reads R's RNG state when it is constructed and writes it back
  when it is destroyed, which happens when its block is left, by \<^verbatim>\<open>return\<close> or by
  an exception.
\<close>

definition RNGScope :: "('e, 'a) cpp \<Rightarrow> ('e, 'a) cpp" where
  "RNGScope body tr =
     (case body (tr @ [GetRNGstate]) of (r, tr') \<Rightarrow> (r, tr' @ [PutRNGstate]))"

text \<open>What the caller in R receives from a native routine: a value or an R error.\<close>

datatype ('e, 's) r_call = R_value 's | R_error 'e

text \<open>
  Modelled from the spec: the macros \<^verbatim>\<open>BEGIN_RCPP\<close> and \<^verbatim>\<open>END_RCPP\<close> belong to
  Rcpp and are missing from the sources.  They put the statements between them in a
  \<^verbatim>\<open>try\<close> block whose handlers catch every exception and raise an R error from it;
  a value the block returns is returned.
\<close>

definition BEGIN_END_RCPP :: "('e, 's) cpp \<Rightarrow> event list \<Rightarrow> ('e, 's) r_call \<times> event list" where
  "BEGIN_END_RCPP body tr =
     (case body tr of (Inl e, tr') \<Rightarrow> (R_error e, tr') | (Inr v, tr') \<Rightarrow> (R_value v, tr'))"

text \<open>
  The two arguments of the counter are converted where the counter is called, and C++
  leaves the order of the two conversions to the compiler.  The order is a parameter;
  it decides which exception is thrown when both conversions throw.
\<close>

datatype eval_order = Left_to_right | Right_to_left

definition convert_args :: "eval_order \<Rightarrow> 'e + 'x \<Rightarrow> 'e + 'c \<Rightarrow> ('e, 'x \<times> 'c) cpp" where
  "convert_args ord cx cc =
     (case ord of
        Left_to_right \<Rightarrow>
          bind_cpp (eval_cpp cx) (\<lambda>x. bind_cpp (eval_cpp cc) (\<lambda>c. return_cpp (x, c)))
      | Right_to_left \<Rightarrow>
          bind_cpp (eval_cpp cc) (\<lambda>c. bind_cpp (eval_cpp cx) (\<lambda>x. return_cpp (x, c))))"

text \<open>
  The two wrappers.  The functions they call are parameters: \<open>as_x\<close> and \<open>as_combos\<close>
  convert the two \<^verbatim>\<open>SEXP\<close> arguments to the counter's argument types
  (\<^verbatim>\<open>input_parameter< List >\<close>) and may throw, \<open>counter\<close> is \<^verbatim>\<open>CellCounts\<close>
  (respectively \<^verbatim>\<open>CellCounts_character\<close>), and \<open>wrap\<close> is \<^verbatim>\<open>Rcpp::wrap\<close>.  The
  declaration of \<^verbatim>\<open>rcpp_result_gen\<close> has no effect and does not appear.
\<close>

definition COMPASS_CellCounts ::
  "eval_order \<Rightarrow> ('s \<Rightarrow> 'e + 'x) \<Rightarrow> ('s \<Rightarrow> 'e + 'c) \<Rightarrow> ('m \<Rightarrow> 's) \<Rightarrow>
   ('x \<Rightarrow> 'c \<Rightarrow> 'e + 'm) \<Rightarrow> 's \<Rightarrow> 's \<Rightarrow> event list \<Rightarrow> ('e, 's) r_call \<times> event list" where
  "COMPASS_CellCounts ord as_x as_combos wrap counter xSEXP combosSEXP =
     BEGIN_END_RCPP
       (RNGScope
         (bind_cpp (convert_args ord (as_x xSEXP) (as_combos combosSEXP)) (\<lambda>args.
          bind_cpp (call_cpp ''CellCounts'' (counter (fst args) (snd args))) (\<lambda>m.
          return_cpp (wrap m)))))"

definition COMPASS_CellCounts_character ::
  "eval_order \<Rightarrow> ('s \<Rightarrow> 'e + 'x) \<Rightarrow> ('s \<Rightarrow> 'e + 'c) \<Rightarrow> ('m \<Rightarrow> 's) \<Rightarrow>
   ('x \<Rightarrow> 'c \<Rightarrow> 'e + 'm) \<Rightarrow> 's \<Rightarrow> 's \<Rightarrow> event list \<Rightarrow> ('e, 's) r_call \<times> event list" where
  "COMPASS_CellCounts_character ord as_data as_combinations wrap counter dataSEXP
       combinationsSEXP =
     BEGIN_END_RCPP
       (RNGScope
         (bind_cpp (convert_args ord (as_data dataSEXP) (as_combinations combinationsSEXP))
            (\<lambda>args.
          bind_cpp (call_cpp ''CellCounts_character'' (counter (fst args) (snd args))) (\<lambda>m.
          return_cpp (wrap m)))))"

section \<open>The registration table and the declarations\<close>

lemmas prototype_defs =
  melt_dataframe_def melt_matrix_def transpose_list_def
  decl_COMPASS_CellCounts_character_def decl_COMPASS_CellCounts_def
  samplePuPs_def samplePuPs_full_def updatealphas_Exp_def updatealphas_Exp_MH_def
  updatealphau_noPu_Exp_def updatealphau_noPu_Exp_MH_def updategammak_noPu_def

lemma registered_callMethods: "registered callMethods = butlast callMethods"
  by (simp add: callMethods_def)

text \<open>
  Claim C9.  In \<open>callMethods\<close>, every registered entry's argument count equals the
  number of \<^verbatim>\<open>SEXP\<close> parameters of the declaration it points to: 5 for
  \<^verbatim>\<open>melt_dataframe\<close>, 1 for \<^verbatim>\<open>melt_matrix\<close> and \<^verbatim>\<open>transpose_list\<close>, 2 for the two
  Counter wrappers, 9 for \<^verbatim>\<open>samplePuPs\<close>, \<^verbatim>\<open>samplePuPs_full\<close>,
  \<^verbatim>\<open>updatealphas_Exp_MH\<close> and \<^verbatim>\<open>updatealphau_noPu_Exp\<close>, 10 for
  \<^verbatim>\<open>updatealphas_Exp\<close>, 8 for \<^verbatim>\<open>updatealphau_noPu_Exp_MH\<close> and 16 for
  \<^verbatim>\<open>updategammak_noPu\<close>; and the table is these entries followed by the sentinel
  \<^verbatim>\<open>{NULL, NULL, 0}\<close>.  Each triple below is the declared function, the entry's
  \<^verbatim>\<open>numArgs\<close> and the declaration's number of \<^verbatim>\<open>SEXP\<close> parameters.
\<close>

theorem callMethods_arities:
  "map entry_summary (registered callMethods) =
     [Some (''melt_dataframe'', 5, 5),
      Some (''melt_matrix'', 1, 1),
      Some (''transpose_list'', 1, 1),
      Some (''_COMPASS_CellCounts_character'', 2, 2),
      Some (''_COMPASS_CellCounts'', 2, 2),
      Some (''samplePuPs'', 9, 9),
      Some (''samplePuPs_full'', 9, 9),
      Some (''updatealphas_Exp'', 10, 10),
      Some (''updatealphas_Exp_MH'', 9, 9),
      Some (''updatealphau_noPu_Exp'', 9, 9),
      Some (''updatealphau_noPu_Exp_MH'', 8, 8),
      Some (''updategammak_noPu'', 16, 16)]
   \<and> filter (\<lambda>e. \<not> arity_agrees e) (registered callMethods) = []
   \<and> callMethods = registered callMethods @ [\<lparr>name = None, func = None, numArgs = 0\<rparr>]"
  by (simp add: callMethods_def entry_summary_def arity_agrees_def sexp_arity_def
      prototype_defs)

text \<open>
  Claim C6.  \<^verbatim>\<open>samplePuPs\<close> and \<^verbatim>\<open>samplePuPs_full\<close> are declared with exactly the
  nine parameters \<open>alphau\<close>, \<open>alphas\<close>, \<open>gammat\<close>, \<open>T\<close>, \<open>K\<close>, \<open>nsi\<close>, \<open>nui\<close>,
  \<open>d\<close>, \<open>M\<close>, and each is registered once, as \<^verbatim>\<open>C_samplePuPs\<close> and
  \<^verbatim>\<open>C_samplePuPs_full\<close>, with 9 arguments.
\<close>

theorem samplePuPs_nine_inputs:
  "param_names samplePuPs =
     [''alphau'', ''alphas'', ''gammat'', ''T'', ''K'', ''nsi'', ''nui'', ''d'', ''M'']
   \<and> param_names samplePuPs_full =
     [''alphau'', ''alphas'', ''gammat'', ''T'', ''K'', ''nsi'', ''nui'', ''d'', ''M'']
   \<and> filter (\<lambda>e. name e = Some ''C_samplePuPs'') (registered callMethods) =
       [\<lparr>name = Some ''C_samplePuPs'', func = Some samplePuPs, numArgs = 9\<rparr>]
   \<and> filter (\<lambda>e. name e = Some ''C_samplePuPs_full'') (registered callMethods) =
       [\<lparr>name = Some ''C_samplePuPs_full'', func = Some samplePuPs_full, numArgs = 9\<rparr>]"
  by (simp add: callMethods_def param_names_def samplePuPs_def samplePuPs_full_def)



section \<open>Properties of the Combinatorial Counter\<close>

lemma matches_iff_identical: "matches ms cl c = identical_across ms cl c"
  unfolding matches_def identical_across_def definition_across_def
  by (auto simp: list_eq_iff_nth_eq)

lemma count_matching_filter:
  "count_matching ms c cls = int (length (filter (\<lambda>cl. matches ms cl c) cls))"
  by (induction cls) auto

lemma length_filter_card:
  "length (filter P xs) = card {j. j < length xs \<and> P (xs ! j)}"
  by (simp add: length_filter_conv_card)

lemma count_matching_card:
  "count_matching ms c cls =
     int (card {j. j < length cls \<and> identical_across ms (cls ! j) c})"
  by (simp add: count_matching_filter length_filter_card matches_iff_identical)

lemma references_absent_iff:
  "references_absent ms c \<longleftrightarrow> \<not> fst ` set c \<subseteq> set ms"
  by (auto simp: references_absent_def list_ex_iff)

lemma CellCounts_accepts:
  assumes "concat (subjects x) \<noteq> []"
    and "\<forall>c\<in>set combos. fst ` set c \<subseteq> set (markers x)"
  shows "CellCounts x combos =
    Inr (map (\<lambda>cls. map (\<lambda>c. count_matching (markers x) c cls) combos) (subjects x))"
  using assms by (simp add: CellCounts_def list_ex_iff references_absent_iff)

lemma length_filter_disjoint:
  "\<forall>x\<in>set xs. \<not> (P x \<and> Q x) \<Longrightarrow>
     length (filter P xs) + length (filter Q xs) = length (filter (\<lambda>x. P x \<or> Q x) xs)"
  by (induction xs) auto

lemma sum_count_matching:
  "distinct (map (definition_across ms) combos) \<Longrightarrow>
     sum_list (map (\<lambda>c. count_matching ms c cls) combos) =
       int (length (matched_cells ms combos cls))"
proof (induction combos)
  case Nil
  then show ?case by (simp add: matched_cells_def)
next
  case (Cons c combos)
  have notin: "definition_across ms c \<notin> definition_across ms ` set combos"
    and dist: "distinct (map (definition_across ms) combos)"
    using Cons.prems by auto
  have disj: "\<forall>cl\<in>set cls. \<not> (matches ms cl c \<and> list_ex (matches ms cl) combos)"
    using notin by (auto simp: matches_def list_ex_iff)
  have "sum_list (map (\<lambda>c. count_matching ms c cls) (c # combos)) =
          int (length (filter (\<lambda>cl. matches ms cl c) cls)) +
          int (length (filter (\<lambda>cl. list_ex (matches ms cl) combos) cls))"
    using Cons.IH [OF dist] by (simp add: count_matching_filter matched_cells_def)
  also have "\<dots> = int (length (filter (\<lambda>cl. matches ms cl c \<or> list_ex (matches ms cl) combos) cls))"
    using length_filter_disjoint [OF disj] by simp
  finally show ?case by (simp add: matched_cells_def)
qed

lemma matched_cells_le: "length (matched_cells ms combos cls) \<le> length cls"
  by (simp add: matched_cells_def)

lemma length_filter_all:
  "length (filter P xs) = length xs \<longleftrightarrow> (\<forall>x\<in>set xs. P x)"
proof (induction xs)
  case Nil
  show ?case by simp
next
  case (Cons a xs)
  have "length (filter P xs) \<le> length xs"
    by simp
  then have "length (filter P xs) \<noteq> Suc (length xs)"
    by linarith
  with Cons show ?case by auto
qed

lemma matched_cells_all:
  "length (matched_cells ms combos cls) = length cls \<longleftrightarrow>
     (\<forall>cl\<in>set cls. list_ex (matches ms cl) combos)"
  by (simp add: matched_cells_def length_filter_all)

lemma CellCounts_Inr:
  "CellCounts x combos = Inr M \<Longrightarrow>
     M = map (\<lambda>cls. map (\<lambda>c. count_matching (markers x) c cls) combos) (subjects x)"
  by (auto simp: CellCounts_def split: if_splits)

text \<open>
  Claim C4.  For a cell table that is not empty and a category list whose markers all
  occur in the data, the Counter returns a matrix with one row per subject, in input
  order, and one column per category, in the order of the list; the entry for subject
  \<open>i\<close> and category \<open>k\<close> is the number of cells of subject \<open>i\<close> whose positivity
  vector is identical to the definition of category \<open>k\<close> on every marker.
\<close>

theorem CellCounts_counts:
  assumes nonempty: "concat (subjects x) \<noteq> []"
    and occur: "\<forall>c\<in>set combos. fst ` set c \<subseteq> set (markers x)"
  shows "\<exists>M. CellCounts x combos = Inr M
     \<and> length M = length (subjects x)
     \<and> (\<forall>i<length (subjects x). length (M ! i) = length combos
          \<and> (\<forall>k<length combos.
               M ! i ! k =
                 int (card {j. j < length (subjects x ! i)
                              \<and> identical_across (markers x) (subjects x ! i ! j) (combos ! k)})))"
proof -
  let ?M = "map (\<lambda>cls. map (\<lambda>c. count_matching (markers x) c cls) combos) (subjects x)"
  have "CellCounts x combos = Inr ?M"
    by (rule CellCounts_accepts [OF nonempty occur])
  moreover have "length ?M = length (subjects x)" by simp
  moreover have "\<forall>i<length (subjects x). length (?M ! i) = length combos
          \<and> (\<forall>k<length combos.
               ?M ! i ! k =
                 int (card {j. j < length (subjects x ! i)
                              \<and> identical_across (markers x) (subjects x ! i ! j) (combos ! k)}))"
    by (simp add: count_matching_card)
  ultimately show ?thesis by blast
qed

theorem CellCounts_counts_witness:
  "concat (subjects \<lparr>markers = [''A'', ''B''],
                     subjects = [[[True, False], [False, False], [True, True]], []]\<rparr>) \<noteq> []
   \<and> fst ` set [(''A'', True), (''B'', False)] \<subseteq> set [''A'', ''B'']
   \<and> fst ` set [(''B'', True), (''A'', True)] \<subseteq> set [''A'', ''B'']
   \<and> CellCounts \<lparr>markers = [''A'', ''B''],
                  subjects = [[[True, False], [False, False], [True, True]], []]\<rparr>
        [[(''A'', True), (''B'', False)], [(''B'', True), (''A'', True)]] = Inr [[1, 1], [0, 0]]
   \<and> int (card {j. j < length [[True, False], [False, False], [True, True]]
                   \<and> identical_across [''A'', ''B'']
                        ([[True, False], [False, False], [True, True]] ! j)
                        [(''B'', True), (''A'', True)]}) = 1"
proof -
  let ?x = "\<lparr>markers = [''A'', ''B''],
             subjects = [[[True, False], [False, False], [True, True]], []]\<rparr>"
  let ?combos = "[[(''A'', True), (''B'', False)], [(''B'', True), (''A'', True)]]"
  have nonempty: "concat (subjects ?x) \<noteq> []"
    by simp
  have occur: "\<forall>c\<in>set ?combos. fst ` set c \<subseteq> set (markers ?x)"
    by simp
  have run: "CellCounts ?x ?combos = Inr [[1, 1], [0, 0]]"
    by (simp add: CellCounts_def references_absent_def matches_def definition_across_def)
  from CellCounts_counts [OF nonempty occur] obtain M where
    M: "CellCounts ?x ?combos = Inr M" and
    entries: "\<forall>i<length (subjects ?x). length (M ! i) = length ?combos
          \<and> (\<forall>k<length ?combos.
               M ! i ! k =
                 int (card {j. j < length (subjects ?x ! i)
                    \<and> identical_across (markers ?x) (subjects ?x ! i ! j) (?combos ! k)}))"
    by blast
  from M run have "M = [[1, 1], [0, 0]]"
    by simp
  moreover from entries have "M ! 0 ! 1 =
      int (card {j. j < length (subjects ?x ! 0)
                    \<and> identical_across (markers ?x) (subjects ?x ! 0 ! j) (?combos ! 1)})"
    by simp
  ultimately have "int (card {j. j < length [[True, False], [False, False], [True, True]]
                   \<and> identical_across [''A'', ''B'']
                        ([[True, False], [False, False], [True, True]] ! j)
                        [(''B'', True), (''A'', True)]}) = 1"
    by simp
  with run show ?thesis by simp
qed

text \<open>
  Claim C3, as stated, fails.  With two markers and the three categories that leave out
  the all-negative combination, a subject with three cells, one of them negative for
  both markers, gets a row that sums to 2.
\<close>

theorem CellCounts_row_sum_counterexample:
  "CellCounts \<lparr>markers = [''A'', ''B''],
               subjects = [[[True, False], [False, False], [True, True]]]\<rparr>
     [[(''A'', True), (''B'', False)], [(''A'', False), (''B'', True)],
      [(''A'', True), (''B'', True)]] = Inr [[1, 0, 1]]
   \<and> row_sums [[1, 0, 1]] = [2]
   \<and> cell_totals \<lparr>markers = [''A'', ''B''],
               subjects = [[[True, False], [False, False], [True, True]]]\<rparr> = [3]"
  by (simp add: CellCounts_def references_absent_def matches_def definition_across_def
      row_sums_def cell_totals_def)

text \<open>
  A category listed twice counts its cells twice, so without pairwise different
  definitions a row sum can also exceed the subject's total.
\<close>

lemma CellCounts_duplicate_category:
  "CellCounts \<lparr>markers = [''A''], subjects = [[[True]]]\<rparr> [[(''A'', True)], [(''A'', True)]]
     = Inr [[1, 1]]"
  by (simp add: CellCounts_def references_absent_def matches_def definition_across_def)

text \<open>
  Claim C3, amended.  For every cell table and category list the Counter accepts, when
  the category definitions are pairwise different on the data's markers, the row sum of
  each subject is the number of that subject's cells that match a category of the list:
  it never exceeds the subject's total cell count, and equals it exactly when every cell
  of the subject matches a category of the list.
\<close>

theorem CellCounts_row_sums:
  assumes accepted: "CellCounts x combos = Inr M"
    and dist: "distinct (map (definition_across (markers x)) combos)"
  shows "row_sums M =
           map (\<lambda>cls. int (length (matched_cells (markers x) combos cls))) (subjects x)
     \<and> (\<forall>i<length (subjects x).
          row_sums M ! i \<le> cell_totals x ! i
          \<and> (row_sums M ! i = cell_totals x ! i \<longleftrightarrow>
               (\<forall>cl\<in>set (subjects x ! i). list_ex (matches (markers x) cl) combos)))"
proof -
  have M: "M = map (\<lambda>cls. map (\<lambda>c. count_matching (markers x) c cls) combos) (subjects x)"
    by (rule CellCounts_Inr [OF accepted])
  have sums: "row_sums M =
      map (\<lambda>cls. int (length (matched_cells (markers x) combos cls))) (subjects x)"
    by (simp add: M row_sums_def sum_count_matching [OF dist] comp_def)
  have "\<forall>i<length (subjects x).
          row_sums M ! i \<le> cell_totals x ! i
          \<and> (row_sums M ! i = cell_totals x ! i \<longleftrightarrow>
               (\<forall>cl\<in>set (subjects x ! i). list_ex (matches (markers x) cl) combos))"
    by (simp add: sums cell_totals_def matched_cells_le matched_cells_all)
  with sums show ?thesis by blast
qed

theorem CellCounts_row_sums_witness:
  "CellCounts \<lparr>markers = [''A'', ''B''],
               subjects = [[[True, False], [False, False], [True, True]], [[False, True]]]\<rparr>
     [[(''A'', True), (''B'', False)], [(''A'', False), (''B'', True)],
      [(''A'', True), (''B'', True)]] = Inr [[1, 0, 1], [0, 1, 0]]
   \<and> distinct (map (definition_across [''A'', ''B''])
        [[(''A'', True), (''B'', False)], [(''A'', False), (''B'', True)],
         [(''A'', True), (''B'', True)]])
   \<and> row_sums [[1, 0, 1], [0, 1, 0]] = [2, 1]
   \<and> cell_totals \<lparr>markers = [''A'', ''B''],
               subjects = [[[True, False], [False, False], [True, True]], [[False, True]]]\<rparr>
        = [3, 1]
   \<and> matched_cells [''A'', ''B'']
        [[(''A'', True), (''B'', False)], [(''A'', False), (''B'', True)],
         [(''A'', True), (''B'', True)]]
        [[True, False], [False, False], [True, True]] = [[True, False], [True, True]]"
proof -
  let ?x = "\<lparr>markers = [''A'', ''B''],
               subjects = [[[True, False], [False, False], [True, True]], [[False, True]]]\<rparr>"
  let ?combos = "[[(''A'', True), (''B'', False)], [(''A'', False), (''B'', True)],
      [(''A'', True), (''B'', True)]]"
  have run: "CellCounts ?x ?combos = Inr [[1, 0, 1], [0, 1, 0]]"
    by (simp add: CellCounts_def references_absent_def matches_def definition_across_def)
  have dist: "distinct (map (definition_across (markers ?x)) ?combos)"
    by (simp add: definition_across_def)
  have cells: "matched_cells [''A'', ''B''] ?combos
        [[True, False], [False, False], [True, True]] = [[True, False], [True, True]]"
    by (simp add: matched_cells_def matches_def definition_across_def)
  from CellCounts_row_sums [OF run dist]
  have "row_sums [[1, 0, 1], [0, 1, 0]] =
      map (\<lambda>cls. int (length (matched_cells (markers ?x) ?combos cls))) (subjects ?x)"
    by blast
  then have "row_sums [[1, 0, 1], [0, 1, 0]] = [2, 1]"
    by (simp add: matched_cells_def matches_def definition_across_def)
  with run dist cells show ?thesis
    by (simp add: cell_totals_def)
qed

section \<open>Properties of the acceptance counters\<close>

lemma pb1_updategammak:
  "pb1 (updategammak_noPu_counters outcomes c) = pb1 c + int (length outcomes)"
  by (induction outcomes arbitrary: c) (auto simp: propose_def)

lemma pb2_updategammak:
  "pb2 (updategammak_noPu_counters outcomes c) = pb2 c + int (length (filter id outcomes))"
  by (induction outcomes arbitrary: c) (auto simp: propose_def)

lemma updategammak_le: "counters_le c (updategammak_noPu_counters outcomes c)"
  by (simp add: counters_le_def pb1_updategammak pb2_updategammak)

lemma updategammak_ok:
  assumes "counters_ok c"
  shows "counters_ok (updategammak_noPu_counters outcomes c)"
proof -
  have "int (length (filter id outcomes)) \<le> int (length outcomes)"
    by simp
  with assms show ?thesis
    unfolding counters_ok_def pb1_updategammak pb2_updategammak by linarith
qed

lemma counters_le_trans: "counters_le a b \<Longrightarrow> counters_le b c \<Longrightarrow> counters_le a c"
  by (auto simp: counters_le_def)

lemma run_chain_ok:
  "counters_ok c \<Longrightarrow> \<forall>c'\<in>set (run_chain c its). counters_ok c'"
proof (induction its arbitrary: c)
  case Nil
  then show ?case by simp
next
  case (Cons outcomes its)
  from Cons.IH [OF updategammak_ok [OF Cons.prems]] Cons.prems
  show ?case by simp
qed

lemma run_chain_above: "\<forall>c'\<in>set (run_chain c its). counters_le c c'"
proof (induction its arbitrary: c)
  case Nil
  show ?case by (simp add: counters_le_def)
next
  case (Cons outcomes its)
  have "counters_le c (updategammak_noPu_counters outcomes c)"
    by (rule updategammak_le)
  with Cons.IH [of "updategammak_noPu_counters outcomes c"]
  show ?case by (auto simp: counters_le_def)
qed

lemma run_chain_sorted: "sorted_wrt counters_le (run_chain c its)"
proof (induction its arbitrary: c)
  case Nil
  show ?case by simp
next
  case (Cons outcomes its)
  have "\<forall>c'\<in>set (run_chain (updategammak_noPu_counters outcomes c) its). counters_le c c'"
    using run_chain_above [of "updategammak_noPu_counters outcomes c" its]
      updategammak_le [of c outcomes]
    by (blast intro: counters_le_trans)
  with Cons.IH show ?case by simp
qed

text \<open>
  Claim C8.  At every iteration boundary of a chain, \<open>pb1 \<ge> pb2 \<ge> 0\<close>, and the
  counters never go down from one iteration to a later one; a call of
  \<^verbatim>\<open>updategammak_noPu\<close> adds to \<open>pb1\<close> the number of its proposals and to \<open>pb2\<close>
  the number of its acceptances.
\<close>

theorem acceptance_counters_invariant:
  "(\<forall>c\<in>set (chain_counters its). counters_ok c)
   \<and> sorted_wrt counters_le (chain_counters its)
   \<and> pb1 (updategammak_noPu_counters outcomes c) = pb1 c + int (length outcomes)
   \<and> pb2 (updategammak_noPu_counters outcomes c) = pb2 c + int (length (filter id outcomes))
   \<and> counters_le c (propose accepted c)
   \<and> counters_le c (updategammak_noPu_counters outcomes c)"
proof -
  have "counters_ok chain_start"
    by (simp add: counters_ok_def chain_start_def)
  then have "\<forall>c\<in>set (chain_counters its). counters_ok c"
    unfolding chain_counters_def by (rule run_chain_ok)
  moreover have "sorted_wrt counters_le (chain_counters its)"
    unfolding chain_counters_def by (rule run_chain_sorted)
  moreover have "counters_le c (propose accepted c)"
    by (simp add: counters_le_def propose_def)
  ultimately show ?thesis
    by (simp add: pb1_updategammak pb2_updategammak updategammak_le)
qed

theorem acceptance_counters_invariant_witness:
  "chain_counters [[True, False], [], [True]] =
     [\<lparr>pb1 = 0, pb2 = 0\<rparr>, \<lparr>pb1 = 2, pb2 = 1\<rparr>, \<lparr>pb1 = 2, pb2 = 1\<rparr>, \<lparr>pb1 = 3, pb2 = 2\<rparr>]
   \<and> counters_ok \<lparr>pb1 = 0, pb2 = 0\<rparr> \<and> counters_ok \<lparr>pb1 = 2, pb2 = 1\<rparr>
   \<and> counters_ok \<lparr>pb1 = 3, pb2 = 2\<rparr>
   \<and> counters_le \<lparr>pb1 = 0, pb2 = 0\<rparr> \<lparr>pb1 = 2, pb2 = 1\<rparr>
   \<and> counters_le \<lparr>pb1 = 2, pb2 = 1\<rparr> \<lparr>pb1 = 3, pb2 = 2\<rparr>
   \<and> pb1 (updategammak_noPu_counters [True, False] \<lparr>pb1 = 0, pb2 = 0\<rparr>) = 2
   \<and> pb2 (updategammak_noPu_counters [True, False] \<lparr>pb1 = 0, pb2 = 0\<rparr>) = 1"
proof -
  have run: "chain_counters [[True, False], [], [True]] =
     [\<lparr>pb1 = 0, pb2 = 0\<rparr>, \<lparr>pb1 = 2, pb2 = 1\<rparr>, \<lparr>pb1 = 2, pb2 = 1\<rparr>, \<lparr>pb1 = 3, pb2 = 2\<rparr>]"
    by (simp add: chain_counters_def chain_start_def propose_def)
  from acceptance_counters_invariant
    [of "[[True, False], [], [True]]" "[True, False]" "\<lparr>pb1 = 0, pb2 = 0\<rparr>" True]
  show ?thesis unfolding run by simp
qed

section \<open>Properties of the exported wrappers\<close>

lemma convert_args_ok:
  "convert_args ord (Inr x) (Inr c) tr = (Inr (x, c), tr)"
  by (cases ord) (simp_all add: convert_args_def bind_cpp_def eval_cpp_def return_cpp_def)

lemma wrapper_value:
  "BEGIN_END_RCPP
     (RNGScope
       (bind_cpp (convert_args ord (Inr x) (Inr combos)) (\<lambda>args.
        bind_cpp (call_cpp f (counter (fst args) (snd args))) (\<lambda>m.
        return_cpp (wrap m))))) tr =
   ((case counter x combos of Inl e \<Rightarrow> R_error e | Inr m \<Rightarrow> R_value (wrap m)),
    tr @ [GetRNGstate, Call f, PutRNGstate])"
  by (simp add: BEGIN_END_RCPP_def RNGScope_def bind_cpp_def convert_args_ok call_cpp_def
      return_cpp_def split: sum.splits)

text \<open>
  When both conversions throw, the order decides which exception becomes the R error;
  the counter is not called.
\<close>

lemma wrapper_both_conversions_throw:
  "COMPASS_CellCounts Left_to_right (\<lambda>s. Inl e1) (\<lambda>s. Inl e2) wrap counter xSEXP combosSEXP tr =
     (R_error e1, tr @ [GetRNGstate, PutRNGstate])
   \<and> COMPASS_CellCounts Right_to_left (\<lambda>s. Inl e1) (\<lambda>s. Inl e2) wrap counter xSEXP combosSEXP tr =
     (R_error e2, tr @ [GetRNGstate, PutRNGstate])"
  by (simp add: COMPASS_CellCounts_def BEGIN_END_RCPP_def RNGScope_def bind_cpp_def
      convert_args_def eval_cpp_def)

text \<open>
  Claim C10.  Both wrappers evaluate the counter inside the
  \<^verbatim>\<open>BEGIN_RCPP\<close>/\<^verbatim>\<open>END_RCPP\<close> guard, after the RNG scope has been entered: when
  the counter throws an exception, the caller receives an R error made from it, and the
  RNG state has been read before the call and written back after it.  This holds for
  either order of the two argument conversions.
\<close>

theorem wrappers_convert_exceptions:
  assumes "as_x xSEXP = Inr x" and "as_combos combosSEXP = Inr combos"
    and "counter x combos = Inl e"
  shows "COMPASS_CellCounts ord as_x as_combos wrap counter xSEXP combosSEXP tr =
           (R_error e, tr @ [GetRNGstate, Call ''CellCounts'', PutRNGstate])
     \<and> COMPASS_CellCounts_character ord as_x as_combos wrap counter xSEXP combosSEXP tr =
           (R_error e, tr @ [GetRNGstate, Call ''CellCounts_character'', PutRNGstate])"
  using assms
  by (simp add: COMPASS_CellCounts_def COMPASS_CellCounts_character_def wrapper_value)

theorem wrappers_convert_exceptions_witness:
  "CellCounts \<lparr>markers = [''A''], subjects = []\<rparr> [[(''A'', True)]] = Inl EmptyTable
   \<and> COMPASS_CellCounts Right_to_left (\<lambda>s::nat. Inr \<lparr>markers = [''A''], subjects = []\<rparr>)
        (\<lambda>s. Inr [[(''A'', True)]]) (\<lambda>m. 0) CellCounts 1 2 [] =
        (R_error EmptyTable, [GetRNGstate, Call ''CellCounts'', PutRNGstate])
   \<and> COMPASS_CellCounts_character Right_to_left
        (\<lambda>s::nat. Inr \<lparr>markers = [''A''], subjects = []\<rparr>)
        (\<lambda>s. Inr [[(''A'', True)]]) (\<lambda>m. 0) CellCounts 1 2 [] =
        (R_error EmptyTable, [GetRNGstate, Call ''CellCounts_character'', PutRNGstate])"
proof -
  have thrown: "CellCounts \<lparr>markers = [''A''], subjects = []\<rparr> [[(''A'', True)]] = Inl EmptyTable"
    by (simp add: CellCounts_def references_absent_def)
  from wrappers_convert_exceptions
    [of "\<lambda>s::nat. Inr \<lparr>markers = [''A''], subjects = []\<rparr>" 1 "\<lparr>markers = [''A''], subjects = []\<rparr>"
        "\<lambda>s. Inr [[(''A'', True)]]" 2 "[[(''A'', True)]]" CellCounts EmptyTable
        Right_to_left "\<lambda>m. 0" "[]",
     OF refl refl thrown] thrown
  show ?thesis by simp
qed

end
